theory Spec2Isabelle
  imports Main "HOL-Library.Multiset"
begin

section \<open>Data model\<close>

text \<open>
  Go strings are byte sequences: \<^typ>\<open>string\<close>. A Go \<open>error\<close> is observed only through
  its \<open>Error()\<close> text, so an error is the string of its message; \<open>fmt.Errorf("p: %w", err)\<close>
  is \<open>p: \<close> followed by the text of \<open>err\<close>.
\<close>

type_synonym error = string

text \<open>\<open>type Config struct { IP string; Token string }\<close>\<close>

record Config =
  IP :: string
  Token :: string

text \<open>
  \<open>ServiceResult.Data\<close> is an \<open>interface{}\<close>; the service stores \<open>nil\<close>, a \<open>[]string\<close>,
  a token, a \<open>Config\<close> or the value returned by \<open>GetInfo\<close> in it.
\<close>

datatype 'i data =
    DataNil
  | DataDevices "string list"
  | DataToken string
  | DataConfig Config
  | DataInfo 'i

record 'i ServiceResult =
  Success :: bool
  Message :: string
  Data :: "'i data"

subsection \<open>Formatting with \<open>%d\<close>\<close>

definition digit :: "nat \<Rightarrow> char" where
  "digit n = ''0123456789'' ! n"

fun decimal :: "nat \<Rightarrow> string" where
  "decimal n = (if n < 10 then [digit n] else decimal (n div 10) @ [digit (n mod 10)])"

declare decimal.simps [simp del]

definition formatInt :: "int \<Rightarrow> string" where
  "formatInt i = (if i < 0 then CHR ''-'' # decimal (nat (- i)) else decimal (nat i))"

section \<open>The device API consumed by the service\<close>

text \<open>
  \<open>NanoleafClient\<close> is an interface with the methods \<open>Pair\<close>, \<open>SetPower\<close>, \<open>GetInfo\<close> and
  \<open>SetBrightness\<close>. An implementation is a record of functions (named as the fields of the
  test double \<open>MockNanoleafClient\<close>); every invocation is appended to a log of calls, and
  an implementation may answer depending on the calls made before.
\<close>

datatype api_call =
    PairCall string
  | SetPowerCall string string bool
  | GetInfoCall string string
  | SetBrightnessCall string string int

record 'i NanoleafClient =
  PairFunc :: "api_call list \<Rightarrow> string \<Rightarrow> error + string"
  SetPowerFunc :: "api_call list \<Rightarrow> string \<Rightarrow> string \<Rightarrow> bool \<Rightarrow> error option"
  GetInfoFunc :: "api_call list \<Rightarrow> string \<Rightarrow> string \<Rightarrow> error + 'i"
  SetBrightnessFunc :: "api_call list \<Rightarrow> string \<Rightarrow> string \<Rightarrow> int \<Rightarrow> error option"

text \<open>
  \<open>ConfigManager\<close> is the interface of the session store: \<open>Save\<close>, \<open>Load\<close>, \<open>Exists\<close>, over
  a store state of type \<open>'st\<close>.
\<close>

record 'st ConfigManager =
  SaveFunc :: "string \<Rightarrow> string \<Rightarrow> 'st \<Rightarrow> error option \<times> 'st"
  LoadFunc :: "'st \<Rightarrow> error + Config"
  ExistsFunc :: "'st \<Rightarrow> bool"

text \<open>What a service operation can change: the log of device-API calls and the store.\<close>

record 'st world =
  calls :: "api_call list"
  store :: 'st

section \<open>NanoleafService\<close>

definition PairWithDevice ::
  "'i NanoleafClient \<Rightarrow> 'st ConfigManager \<Rightarrow> string \<Rightarrow> 'st world \<Rightarrow> 'i ServiceResult \<times> 'st world" where
  "PairWithDevice client configManager ip w =
     (if ip = [] then
        (\<lparr>Success = False, Message = ''No device IP provided. Please scan first.'',
          Data = DataNil\<rparr>, w)
      else
        let w1 = w\<lparr>calls := calls w @ [PairCall ip]\<rparr> in
        case PairFunc client (calls w) ip of
          Inl err \<Rightarrow>
            (\<lparr>Success = False, Message = ''Pairing failed: '' @ err, Data = DataNil\<rparr>, w1)
        | Inr token \<Rightarrow>
            let w2 = w1\<lparr>store := snd (SaveFunc configManager ip token (store w1))\<rparr> in
            (\<lparr>Success = True, Message = ''Device paired successfully'',
              Data = DataToken token\<rparr>, w2))"

definition SetDevicePower ::
  "'i NanoleafClient \<Rightarrow> string \<Rightarrow> string \<Rightarrow> bool \<Rightarrow> 'st world \<Rightarrow> 'i ServiceResult \<times> 'st world" where
  "SetDevicePower client ip token on w =
     (if ip = [] \<or> token = [] then
        (\<lparr>Success = False, Message = ''Device not paired. Please scan and pair first.'',
          Data = DataNil\<rparr>, w)
      else
        let action = (if on then ''on'' else ''off'');
            w1 = w\<lparr>calls := calls w @ [SetPowerCall ip token on]\<rparr> in
        case SetPowerFunc client (calls w) ip token on of
          Some err \<Rightarrow>
            (\<lparr>Success = False,
              Message = ''Failed to turn '' @ action @ '' device: '' @ err,
              Data = DataNil\<rparr>, w1)
        | None \<Rightarrow>
            (\<lparr>Success = True, Message = ''Device turned '' @ action @ '' successfully'',
              Data = DataNil\<rparr>, w1))"

definition LoadConfiguration ::
  "'st ConfigManager \<Rightarrow> 'st world \<Rightarrow> 'i ServiceResult \<times> 'st world" where
  "LoadConfiguration configManager w =
     (if \<not> ExistsFunc configManager (store w) then
        (\<lparr>Success = False, Message = ''No saved configuration found'', Data = DataNil\<rparr>, w)
      else
        case LoadFunc configManager (store w) of
          Inl err \<Rightarrow>
            (\<lparr>Success = False, Message = ''Failed to load configuration: '' @ err,
              Data = DataNil\<rparr>, w)
        | Inr config \<Rightarrow>
            (\<lparr>Success = True, Message = ''Configuration loaded successfully'',
              Data = DataConfig config\<rparr>, w))"

definition GetDeviceInfo ::
  "'i NanoleafClient \<Rightarrow> string \<Rightarrow> string \<Rightarrow> 'st world \<Rightarrow> 'i ServiceResult \<times> 'st world" where
  "GetDeviceInfo client ip token w =
     (if ip = [] \<or> token = [] then
        (\<lparr>Success = False, Message = ''Device not paired. Please scan and pair first.'',
          Data = DataNil\<rparr>, w)
      else
        let w1 = w\<lparr>calls := calls w @ [GetInfoCall ip token]\<rparr> in
        case GetInfoFunc client (calls w) ip token of
          Inl err \<Rightarrow>
            (\<lparr>Success = False, Message = ''Failed to get device info: '' @ err,
              Data = DataNil\<rparr>, w1)
        | Inr info \<Rightarrow>
            (\<lparr>Success = True, Message = ''Device info retrieved successfully'',
              Data = DataInfo info\<rparr>, w1))"

definition SetBrightness ::
  "'i NanoleafClient \<Rightarrow> string \<Rightarrow> string \<Rightarrow> int \<Rightarrow> 'st world \<Rightarrow> 'i ServiceResult \<times> 'st world" where
  "SetBrightness client ip token b w =
     (if ip = [] \<or> token = [] then
        (\<lparr>Success = False, Message = ''Device not paired. Please scan and pair first.'',
          Data = DataNil\<rparr>, w)
      else
        let w1 = w\<lparr>calls := calls w @ [SetBrightnessCall ip token b]\<rparr> in
        case SetBrightnessFunc client (calls w) ip token b of
          Some err \<Rightarrow>
            (\<lparr>Success = False, Message = ''Failed to set device brightness: '' @ err,
              Data = DataNil\<rparr>, w1)
        | None \<Rightarrow>
            (\<lparr>Success = True,
              Message = ''Brightness set to '' @ formatInt b @ '' successfully'',
              Data = DataNil\<rparr>, w1))"

section \<open>FileConfigManager\<close>

text \<open>
  The file at \<open>configPath\<close>, as the calls \<open>os.Stat\<close> and \<open>os.ReadFile\<close> see it: absent,
  present but failing to be read (any error other than "does not exist"), or present
  with some bytes. \<open>os.WriteFile\<close> either replaces the contents or fails with an error,
  leaving some file behind; which of the two is a parameter of the file system.
\<close>

datatype file_state = NotExist | Unreadable error | Contents string

record fs =
  config_file :: file_state
  write_failure :: "(error \<times> file_state) option"

text \<open>
  \<open>json.MarshalIndent\<close> and \<open>json.Unmarshal\<close> of package \<open>encoding/json\<close>, at type
  \<open>Config\<close>, are parameters.
\<close>

record json =
  MarshalIndent :: "Config \<Rightarrow> error + string"
  Unmarshal :: "string \<Rightarrow> error + Config"

definition WriteFile :: "string \<Rightarrow> fs \<Rightarrow> error option \<times> fs" where
  "WriteFile bytes disk =
     (case write_failure disk of
        Some (err, left) \<Rightarrow> (Some err, disk\<lparr>config_file := left\<rparr>)
      | None \<Rightarrow> (None, disk\<lparr>config_file := Contents bytes\<rparr>))"

definition ReadFile :: "fs \<Rightarrow> error + string" where
  "ReadFile disk =
     (case config_file disk of
        NotExist \<Rightarrow> Inl ''no such file or directory''
      | Unreadable err \<Rightarrow> Inl err
      | Contents bytes \<Rightarrow> Inr bytes)"

text \<open>\<open>Exists\<close>: \<open>_, err := os.Stat(c.configPath); return !os.IsNotExist(err)\<close>\<close>

definition Exists :: "fs \<Rightarrow> bool" where
  "Exists disk = (config_file disk \<noteq> NotExist)"

definition Save :: "json \<Rightarrow> string \<Rightarrow> string \<Rightarrow> fs \<Rightarrow> error option \<times> fs" where
  "Save js ip token disk =
     (if ip = [] \<or> token = [] then (Some ''ip and token cannot be empty'', disk)
      else
        case MarshalIndent js \<lparr>IP = ip, Token = token\<rparr> of
          Inl err \<Rightarrow> (Some (''failed to marshal config: '' @ err), disk)
        | Inr bytes \<Rightarrow>
            (case WriteFile bytes disk of
               (Some err, disk') \<Rightarrow> (Some (''failed to write config file: '' @ err), disk')
             | (None, disk') \<Rightarrow> (None, disk')))"

text \<open>
  \<open>Load\<close> returns \<open>(config, err)\<close>; with an error the callers drop the config, so the model
  returns the error alone.
\<close>

definition Load :: "json \<Rightarrow> fs \<Rightarrow> error + Config" where
  "Load js disk =
     (if \<not> Exists disk then Inl ''config file does not exist''
      else
        case ReadFile disk of
          Inl err \<Rightarrow> Inl (''failed to read config file: '' @ err)
        | Inr bytes \<Rightarrow>
            (case Unmarshal js bytes of
               Inl err \<Rightarrow> Inl (''failed to unmarshal config: '' @ err)
             | Inr config \<Rightarrow>
                 if IP config = [] \<or> Token config = []
                 then Inl ''invalid configuration: missing IP or token''
                 else Inr config))"

text \<open>The file-based store as an implementation of the \<open>ConfigManager\<close> interface.\<close>

definition FileConfigManager :: "json \<Rightarrow> fs ConfigManager" where
  "FileConfigManager js = \<lparr>SaveFunc = Save js, LoadFunc = Load js, ExistsFunc = Exists\<rparr>"

section \<open>The session kept by the program (\<open>cmd/main.go\<close>)\<close>

text \<open>
  The fields \<open>m.ip\<close>, \<open>m.token\<close>, \<open>m.deviceReady\<close> and \<open>m.message\<close> of \<open>model\<close>, which the
  \<open>pair\<close> action reads and writes. A message is kept with the style it is rendered in.
\<close>

datatype style = NormalStyle | SuccessStyle | ErrorStyle

record model =
  m_ip :: string
  m_token :: string
  m_deviceReady :: bool
  m_message :: "style \<times> string"

text \<open>The branch \<open>case pair:\<close> of \<open>handleAction\<close>.\<close>

definition handleAction_pair ::
  "'i NanoleafClient \<Rightarrow> 'st ConfigManager \<Rightarrow> model \<Rightarrow> 'st world \<Rightarrow> model \<times> 'st world" where
  "handleAction_pair client configManager m w =
     (if \<not> m_deviceReady m then
        if m_ip m = [] then
          (m\<lparr>m_message := (NormalStyle, ''No device found. Please scan first.'')\<rparr>, w)
        else
          let (result :: 'i ServiceResult, w') = PairWithDevice client configManager (m_ip m) w in
          if Success result then
            let m1 = (case Data result of DataToken t \<Rightarrow> m\<lparr>m_token := t\<rparr> | _ \<Rightarrow> m) in
            (m1\<lparr>m_message := (SuccessStyle, Message result)\<rparr>, w')
          else
            (m\<lparr>m_message := (ErrorStyle, Message result)\<rparr>, w')
      else (m, w))"

section \<open>Device (\<open>internal/device.go\<close>)\<close>

text \<open>
  \<open>Device\<close> holds a \<open>Config\<close> and the list of effects; its client is the HTTP client of
  the device. A method of that client returns an error or a value, or panics
  (\<open>buildURL\<close> slices \<open>ip[0:4]\<close>): \<open>None\<close> is the panic.
\<close>

record Device =
  config :: Config
  effects :: "string list"

record 'i client =
  getInfo :: "string \<Rightarrow> string \<Rightarrow> (error + 'i) option"
  listEffects :: "string \<Rightarrow> string \<Rightarrow> (error + string list) option"
  setBrightness :: "string \<Rightarrow> string \<Rightarrow> int \<Rightarrow> (error option) option"

definition loadEffects :: "'i client \<Rightarrow> Device \<Rightarrow> Device option" where
  "loadEffects c d =
     (case listEffects c (IP (config d)) (Token (config d)) of
        None \<Rightarrow> None
      | Some (Inr effs) \<Rightarrow> Some (d\<lparr>effects := effs\<rparr>)
      | Some (Inl err) \<Rightarrow> Some d)"

text \<open>\<open>IsDeviceReady\<close> returns the boolean and the device as it leaves it; \<open>None\<close> is a panic.\<close>

definition IsDeviceReady :: "'i client \<Rightarrow> Device \<Rightarrow> (bool \<times> Device) option" where
  "IsDeviceReady c d =
     (if IP (config d) = [] \<or> Token (config d) = [] then Some (False, d)
      else
        case getInfo c (IP (config d)) (Token (config d)) of
          None \<Rightarrow> None
        | Some (Inr info) \<Rightarrow>
            (case loadEffects c d of None \<Rightarrow> None | Some d' \<Rightarrow> Some (True, d'))
        | Some (Inl err) \<Rightarrow> Some (False, d))"

definition SetDevice :: "string \<Rightarrow> Device \<Rightarrow> Device" where
  "SetDevice addr d = d\<lparr>config := (config d)\<lparr>IP := addr\<rparr>\<rparr>"

text \<open>
  \<open>Device.SetBrightness\<close>: the result is the error (or none) and whether the client's
  \<open>setBrightness\<close> was called.
\<close>

definition Device_SetBrightness :: "'i client \<Rightarrow> Device \<Rightarrow> int \<Rightarrow> (error option \<times> bool) option" where
  "Device_SetBrightness c d brightness =
     (if brightness < 0 \<or> brightness > 100
      then Some (Some ''brightness must be between 0 and 100'', False)
      else
        case setBrightness c (IP (config d)) (Token (config d)) brightness of
          None \<Rightarrow> None
        | Some r \<Rightarrow> Some (r, True))"

section \<open>NetworkScanner\<close>

text \<open>
  \<open>Scan\<close> starts 50 workers, a sender of the jobs and a goroutine that waits for the workers,
  and then collects the results itself. The goroutines share two buffered channels and the
  context; an execution is an interleaving of their steps. The state below holds the
  channels, the context and where each goroutine stands; every blocking operation of the
  source (a \<open>select\<close>, a channel send, \<open>DialContext\<close>, \<open>wg.Wait\<close>) is one step, enabled when
  the operation can proceed. A \<open>select\<close> with several ready cases takes any of them.
\<close>

text \<open>Where a worker stands in its loop.\<close>

datatype wstate =
    Selecting
  | Probing string
  | Reporting string
  | Exited

text \<open>
  \<open>ctx_err\<close> is \<open>ctx.Err()\<close>: \<open>None\<close> until the context is cancelled or its deadline passes.
  \<open>next_i\<close> is the loop variable \<open>i\<close> of the sender; \<open>jobs_closed\<close> holds once the sender has
  returned (\<open>defer close(jobs)\<close>). \<open>returned\<close> is the return value of \<open>Scan\<close>, once it has
  returned. \<open>dialed\<close> records the calls of \<open>DialContext\<close> made by \<open>isNanoleafDevice\<close>, latest
  first: the address and whether the connection succeeded.
\<close>

record scan_state =
  ctx_err :: "error option"
  next_i :: nat
  jobs :: "string list"
  jobs_closed :: bool
  workers :: "wstate list"
  results :: "string list"
  results_closed :: bool
  devices :: "string list"
  returned :: "(error + string list) option"
  dialed :: "(string \<times> bool) list"

definition maxWorkers :: nat where
  "maxWorkers = 50"

definition start :: scan_state where
  "start =
     \<lparr>ctx_err = None, next_i = 1, jobs = [], jobs_closed = False,
      workers = replicate maxWorkers Selecting, results = [], results_closed = False,
      devices = [], returned = None, dialed = []\<rparr>"

text \<open>
  The steps. \<open>CtxDone e\<close> is the caller's cancellation or deadline. The sender sends the
  next job, or takes the \<open>ctx.Done()\<close> case, or leaves its loop after job 254. Worker \<open>k\<close>
  receives a job, or finds \<open>jobs\<close> closed and drained, or takes the \<open>ctx.Done()\<close> case; it
  dials (the step carries the outcome of \<open>DialContext\<close>) and sends its report. The waiter
  closes \<open>results\<close> when every worker has returned. The collector receives a report, or
  finds \<open>results\<close> closed and drained, or takes the \<open>ctx.Done()\<close> case.
\<close>

datatype action =
    CtxDone error
  | SenderSend
  | SenderCancel
  | SenderFinish
  | WorkerRecv nat
  | WorkerJobsClosed nat
  | WorkerCancel nat
  | WorkerDial nat bool
  | WorkerReport nat
  | WaiterClose
  | CollectRecv
  | CollectClosed
  | CollectCancel

text \<open>
  \<open>step subnet a s\<close> is the state after step \<open>a\<close>, or \<open>None\<close> when \<open>a\<close> cannot be taken in \<open>s\<close>.
  Both channels have capacity 254. A worker that sends a report finds \<open>results\<close> open, since
  \<open>results\<close> is closed after all workers have returned.
\<close>

fun step :: "string \<Rightarrow> action \<Rightarrow> scan_state \<Rightarrow> scan_state option" where
  "step subnet (CtxDone e) s =
     (if ctx_err s = None then Some (s\<lparr>ctx_err := Some e\<rparr>) else None)"
| "step subnet SenderSend s =
     (if \<not> jobs_closed s \<and> next_i s \<le> 254 \<and> length (jobs s) < 254
      then Some (s\<lparr>jobs := jobs s @ [subnet @ formatInt (int (next_i s))],
                   next_i := next_i s + 1\<rparr>)
      else None)"
| "step subnet SenderCancel s =
     (if \<not> jobs_closed s \<and> next_i s \<le> 254 \<and> ctx_err s \<noteq> None
      then Some (s\<lparr>jobs_closed := True\<rparr>)
      else None)"
| "step subnet SenderFinish s =
     (if \<not> jobs_closed s \<and> \<not> next_i s \<le> 254
      then Some (s\<lparr>jobs_closed := True\<rparr>)
      else None)"
| "step subnet (WorkerRecv k) s =
     (if k < length (workers s) \<and> workers s ! k = Selecting
      then (case jobs s of
              [] \<Rightarrow> None
            | ip # rest \<Rightarrow> Some (s\<lparr>jobs := rest, workers := (workers s)[k := Probing ip]\<rparr>))
      else None)"
| "step subnet (WorkerJobsClosed k) s =
     (if k < length (workers s) \<and> workers s ! k = Selecting \<and> jobs s = [] \<and> jobs_closed s
      then Some (s\<lparr>workers := (workers s)[k := Exited]\<rparr>)
      else None)"
| "step subnet (WorkerCancel k) s =
     (if k < length (workers s) \<and> workers s ! k = Selecting \<and> ctx_err s \<noteq> None
      then Some (s\<lparr>workers := (workers s)[k := Exited]\<rparr>)
      else None)"
| "step subnet (WorkerDial k ok) s =
     (if k < length (workers s)
      then (case workers s ! k of
              Probing ip \<Rightarrow>
                Some (s\<lparr>workers := (workers s)[k := Reporting (if ok then ip else [])],
                        dialed := (ip, ok) # dialed s\<rparr>)
            | _ \<Rightarrow> None)
      else None)"
| "step subnet (WorkerReport k) s =
     (if k < length (workers s) \<and> \<not> results_closed s \<and> length (results s) < 254
      then (case workers s ! k of
              Reporting r \<Rightarrow>
                Some (s\<lparr>results := results s @ [r], workers := (workers s)[k := Selecting]\<rparr>)
            | _ \<Rightarrow> None)
      else None)"
| "step subnet WaiterClose s =
     (if \<not> results_closed s \<and> (\<forall>w \<in> set (workers s). w = Exited)
      then Some (s\<lparr>results_closed := True\<rparr>)
      else None)"
| "step subnet CollectRecv s =
     (if returned s = None
      then (case results s of
              [] \<Rightarrow> None
            | r # rest \<Rightarrow>
                Some (s\<lparr>results := rest,
                        devices := (if r \<noteq> [] then devices s @ [r] else devices s)\<rparr>))
      else None)"
| "step subnet CollectClosed s =
     (if returned s = None \<and> results s = [] \<and> results_closed s
      then Some (s\<lparr>returned := Some (Inr (devices s))\<rparr>)
      else None)"
| "step subnet CollectCancel s =
     (if returned s = None
      then (case ctx_err s of
              None \<Rightarrow> None
            | Some e \<Rightarrow> Some (s\<lparr>returned := Some (Inl e)\<rparr>))
      else None)"

text \<open>An execution: the steps of a schedule, taken in order from a state.\<close>

fun run :: "string \<Rightarrow> action list \<Rightarrow> scan_state \<Rightarrow> scan_state option" where
  "run subnet [] s = Some s"
| "run subnet (a # sched) s =
     (case step subnet a s of None \<Rightarrow> None | Some s' \<Rightarrow> run subnet sched s')"

text \<open>The candidates of a scan: the subnet prefix followed by the suffixes 1 to 254.\<close>

definition candidates :: "string \<Rightarrow> string list" where
  "candidates subnet = map (\<lambda>i. subnet @ formatInt (int i)) [1..<255]"

subsection \<open>Bookkeeping of jobs and reports\<close>

text \<open>
  Where the jobs sent so far are: in the channel, in the hands of a worker that dials, or
  dialed. Where the non-empty reports of the dials are: in the hands of a worker that is
  about to send, in the channel, or collected in \<open>devices\<close>. \<open>scan_inv\<close> states this
  accounting together with the order in which the goroutines finish; it holds in every
  state of an execution in which the context is not done.
\<close>

fun holding :: "wstate \<Rightarrow> string multiset" where
  "holding (Probing ip) = {#ip#}"
| "holding _ = {#}"

fun reporting :: "wstate \<Rightarrow> string multiset" where
  "reporting (Reporting r) = (if r = [] then {#} else {#r#})"
| "reporting _ = {#}"

definition report :: "string \<times> bool \<Rightarrow> string" where
  "report p = (if snd p then fst p else [])"

definition sent :: "string \<Rightarrow> nat \<Rightarrow> string list" where
  "sent subnet n = map (\<lambda>i. subnet @ formatInt (int i)) [1..<n]"

definition scan_inv :: "string \<Rightarrow> scan_state \<Rightarrow> bool" where
  "scan_inv subnet s \<longleftrightarrow>
     1 \<le> next_i s \<and> next_i s \<le> 255 \<and>
     mset (sent subnet (next_i s)) =
       mset (jobs s) + sum_list (map holding (workers s)) + mset (map fst (dialed s)) \<and>
     filter_mset (\<lambda>r. r \<noteq> []) (mset (map report (dialed s))) =
       sum_list (map reporting (workers s)) + filter_mset (\<lambda>r. r \<noteq> []) (mset (results s))
         + mset (devices s) \<and>
     (jobs_closed s \<longrightarrow> next_i s = 255) \<and>
     (Exited \<in> set (workers s) \<longrightarrow> jobs_closed s \<and> jobs s = []) \<and>
     (results_closed s \<longrightarrow> (\<forall>w \<in> set (workers s). w = Exited)) \<and>
     (\<forall>r. returned s = Some r \<longrightarrow> r = Inr (devices s) \<and> results_closed s \<and> results s = []) \<and>
     workers s \<noteq> []"

section \<open>Test doubles\<close>

text \<open>
  Substitutes for the collaborators, as the tests of the repository build them: a device
  API that accepts every call, a JSON codec that knows two documents, a disk without the
  config file, a disk that refuses writes, and a device client that answers like a device
  holding the token \<open>test-token\<close>.
\<close>

definition mockClient :: "unit NanoleafClient" where
  "mockClient =
     \<lparr>PairFunc = (\<lambda>log ip. Inr ''test_token''),
      SetPowerFunc = (\<lambda>log ip token on. None),
      GetInfoFunc = (\<lambda>log ip token. Inr ()),
      SetBrightnessFunc = (\<lambda>log ip token b. None)\<rparr>"

definition stubJSON :: json where
  "stubJSON =
     \<lparr>MarshalIndent = (\<lambda>c. Inr (''{\"ip\": \"'' @ IP c @ ''\", \"token\": \"'' @ Token c @ ''\"}'')),
      Unmarshal = (\<lambda>bytes.
        if bytes = ''{\"ip\": \"192.168.1.100\", \"token\": \"test-token\"}''
        then Inr \<lparr>IP = ''192.168.1.100'', Token = ''test-token''\<rparr>
        else if bytes = ''{\"ip\": \"192.168.1.100\"}''
        then Inr \<lparr>IP = ''192.168.1.100'', Token = []\<rparr>
        else Inl ''invalid character'')\<rparr>"

definition emptyDisk :: fs where
  "emptyDisk = \<lparr>config_file = NotExist, write_failure = None\<rparr>"

definition readOnlyDisk :: fs where
  "readOnlyDisk =
     \<lparr>config_file = NotExist, write_failure = Some (''permission denied'', NotExist)\<rparr>"

definition stubDeviceClient :: "unit client" where
  "stubDeviceClient =
     \<lparr>getInfo = (\<lambda>ip token.
        if length ip < 4 then None
        else if token = ''test-token'' then Some (Inr ())
        else Some (Inl ''get info failed with status 401'')),
      listEffects = (\<lambda>ip token. if length ip < 4 then None else Some (Inr [''Aurora''])),
      setBrightness = (\<lambda>ip token b. if length ip < 4 then None else Some None)\<rparr>"

text \<open>
  Schedules of a scan. In a round the sender sends a job, worker \<open>k\<close> takes it, dials and
  reports, and the collector takes the report. \<open>fullSchedule up\<close> is a scan without
  cancellation in which host \<open>i\<close> answers iff \<open>up i\<close>: 254 rounds, then the sender closes
  \<open>jobs\<close>, the workers return, the waiter closes \<open>results\<close> and the collector returns.
  \<open>betweenRounds\<close> is the state between two rounds. In \<open>deadlineSchedule\<close> the deadline
  passes when one report of two jobs has been collected; every goroutine but the collector
  then takes its \<open>ctx.Done()\<close> case, and the collector takes the \<open>results\<close> case twice.
\<close>

definition scanRound :: "nat \<Rightarrow> bool \<Rightarrow> action list" where
  "scanRound k ok = [SenderSend, WorkerRecv k, WorkerDial k ok, WorkerReport k, CollectRecv]"

definition fullSchedule :: "(nat \<Rightarrow> bool) \<Rightarrow> action list" where
  "fullSchedule up =
     concat (map (\<lambda>i. scanRound 0 (up i)) [1..<255])
     @ [SenderFinish] @ map WorkerJobsClosed [0..<50] @ [WaiterClose, CollectClosed]"

definition betweenRounds :: "nat \<Rightarrow> (string \<times> bool) list \<Rightarrow> string list \<Rightarrow> scan_state" where
  "betweenRounds n ds devs = start\<lparr>next_i := n, dialed := ds, devices := devs\<rparr>"

definition deadlineSchedule :: "action list" where
  "deadlineSchedule =
     [SenderSend, SenderSend, WorkerRecv 0, WorkerRecv 1, WorkerDial 0 True, WorkerReport 0,
      CollectRecv, CtxDone ''context deadline exceeded'', WorkerDial 1 False, WorkerReport 1,
      SenderCancel]
     @ map WorkerCancel [0..<50] @ [WaiterClose, CollectRecv, CollectClosed]"

section \<open>Brightness\<close>

lemma SetBrightness_calls_api:
  "ip \<noteq> [] \<Longrightarrow> token \<noteq> [] \<Longrightarrow>
   calls (snd (SetBrightness client ip token b w)) = calls w @ [SetBrightnessCall ip token b]"
  by (simp add: SetBrightness_def Let_def split: option.split)

lemma Device_SetBrightness_validates:
  "brightness < 0 \<or> brightness > 100 \<Longrightarrow>
   Device_SetBrightness c d brightness =
     Some (Some ''brightness must be between 0 and 100'', False)"
  by (simp add: Device_SetBrightness_def)

text \<open>
  C1. The claim: for a level outside [0,100], the service's \<open>SetBrightness\<close> with a non-empty
  address and credential fails and never calls the device API. \<open>Device.SetBrightness\<close>
  checks the range (lemma \<open>Device_SetBrightness_validates\<close>); \<open>NanoleafService.SetBrightness\<close>
  does not: with level 150 it calls the device API with 150 and reports success.
\<close>

theorem SetBrightness_out_of_range_reaches_api:
  "SetBrightness mockClient ''192.168.1.100'' ''test_token'' 150 \<lparr>calls = [], store = ()\<rparr> =
     (\<lparr>Success = True, Message = ''Brightness set to 150 successfully'', Data = DataNil\<rparr>,
      \<lparr>calls = [SetBrightnessCall ''192.168.1.100'' ''test_token'' 150], store = ()\<rparr>)"
  by (simp add: SetBrightness_def mockClient_def formatInt_def decimal.simps digit_def)

section \<open>The session\<close>

text \<open>
  C2, as stated: after \<open>SetDevice\<close> the credential is empty. It fails on a paired device:
  the credential \<open>T1\<close> is still there.
\<close>

theorem SetDevice_discards_credential_counterexample:
  "\<not> Token (config (SetDevice ''10.0.0.6''
        \<lparr>config = \<lparr>IP = ''10.0.0.5'', Token = ''T1''\<rparr>, effects = []\<rparr>)) = []"
  by (simp add: SetDevice_def)

text \<open>
  C2, amended: \<open>SetDevice addr\<close> sets the address of the session to \<open>addr\<close> and leaves the
  credential and the effects as they were.
\<close>

theorem SetDevice_sets_address_only:
  "IP (config (SetDevice addr d)) = addr \<and>
   Token (config (SetDevice addr d)) = Token (config d) \<and>
   effects (SetDevice addr d) = effects d"
  by (simp add: SetDevice_def)

text \<open>
  C8. \<open>IsDeviceReady\<close> answers true only if address and credential are non-empty and
  \<open>getInfo\<close> succeeded for them; it answers false when the address or the credential is
  empty, and also when both are present and \<open>getInfo\<close> fails.
\<close>

theorem IsDeviceReady_probes:
  "(IsDeviceReady c d = Some (True, d') \<longrightarrow>
      IP (config d) \<noteq> [] \<and> Token (config d) \<noteq> [] \<and>
      (\<exists>info. getInfo c (IP (config d)) (Token (config d)) = Some (Inr info))) \<and>
   (IP (config d) = [] \<or> Token (config d) = [] \<longrightarrow> IsDeviceReady c d = Some (False, d)) \<and>
   (IP (config d) \<noteq> [] \<and> Token (config d) \<noteq> [] \<and>
    getInfo c (IP (config d)) (Token (config d)) = Some (Inl err) \<longrightarrow>
      IsDeviceReady c d = Some (False, d))"
  by (auto simp: IsDeviceReady_def split: option.splits sum.splits if_splits)

theorem IsDeviceReady_probes_witness:
  "IsDeviceReady stubDeviceClient
     \<lparr>config = \<lparr>IP = ''10.0.0.5'', Token = ''test-token''\<rparr>, effects = []\<rparr> =
     Some (True, \<lparr>config = \<lparr>IP = ''10.0.0.5'', Token = ''test-token''\<rparr>,
                  effects = [''Aurora'']\<rparr>) \<and>
   getInfo stubDeviceClient ''10.0.0.5'' ''test-token'' = Some (Inr ()) \<and>
   (IP \<lparr>IP = ''10.0.0.5'', Token = []\<rparr> = [] \<or> Token \<lparr>IP = ''10.0.0.5'', Token = []\<rparr> = []) \<and>
   IsDeviceReady stubDeviceClient \<lparr>config = \<lparr>IP = ''10.0.0.5'', Token = []\<rparr>, effects = []\<rparr> =
     Some (False, \<lparr>config = \<lparr>IP = ''10.0.0.5'', Token = []\<rparr>, effects = []\<rparr>) \<and>
   ''10.0.0.5'' \<noteq> [] \<and> ''stale'' \<noteq> [] \<and>
   getInfo stubDeviceClient ''10.0.0.5'' ''stale'' = Some (Inl ''get info failed with status 401'') \<and>
   IsDeviceReady stubDeviceClient
     \<lparr>config = \<lparr>IP = ''10.0.0.5'', Token = ''stale''\<rparr>, effects = []\<rparr> =
     Some (False, \<lparr>config = \<lparr>IP = ''10.0.0.5'', Token = ''stale''\<rparr>, effects = []\<rparr>)"
proof -
  let ?c = stubDeviceClient
  let ?d1 = "\<lparr>config = \<lparr>IP = ''10.0.0.5'', Token = ''test-token''\<rparr>, effects = []\<rparr>"
  let ?d1' = "\<lparr>config = \<lparr>IP = ''10.0.0.5'', Token = ''test-token''\<rparr>, effects = [''Aurora'']\<rparr>"
  let ?d2 = "\<lparr>config = \<lparr>IP = ''10.0.0.5'', Token = []\<rparr>, effects = []\<rparr>"
  let ?d3 = "\<lparr>config = \<lparr>IP = ''10.0.0.5'', Token = ''stale''\<rparr>, effects = []\<rparr>"
  have r1: "IsDeviceReady ?c ?d1 = Some (True, ?d1')"
    by (simp add: IsDeviceReady_def loadEffects_def stubDeviceClient_def)
  have g3: "getInfo ?c ''10.0.0.5'' ''stale'' = Some (Inl ''get info failed with status 401'')"
    by (simp add: stubDeviceClient_def)
  show ?thesis
    using IsDeviceReady_probes [of ?c ?d1 ?d1'] IsDeviceReady_probes [of ?c ?d2]
      IsDeviceReady_probes [of ?c ?d3 _ "''get info failed with status 401''"] r1 g3
    by simp
qed

section \<open>The service\<close>

text \<open>
  C5. If the address is non-empty and the device API's \<open>Pair\<close> returns the credential \<open>t\<close>,
  then \<open>PairWithDevice\<close> returns success with \<open>t\<close> as its data, whatever the store's \<open>Save\<close>
  does, and the \<open>pair\<close> action of the program leaves \<open>t\<close> in the session.
\<close>

theorem PairWithDevice_survives_save_failure:
  assumes "addr \<noteq> []" and "PairFunc client (calls w) addr = Inr t"
  shows "fst (PairWithDevice client configManager addr w) =
           \<lparr>Success = True, Message = ''Device paired successfully'', Data = DataToken t\<rparr> \<and>
         (\<not> m_deviceReady m \<and> m_ip m = addr \<longrightarrow>
            m_token (fst (handleAction_pair client configManager m w)) = t)"
  using assms by (simp add: PairWithDevice_def handleAction_pair_def Let_def)

theorem PairWithDevice_survives_save_failure_witness:
  "''192.168.1.100'' \<noteq> [] \<and>
   PairFunc mockClient [] ''192.168.1.100'' = Inr ''test_token'' \<and>
   fst (SaveFunc (FileConfigManager stubJSON) ''192.168.1.100'' ''test_token'' readOnlyDisk)
     \<noteq> None \<and>
   fst (PairWithDevice mockClient (FileConfigManager stubJSON) ''192.168.1.100''
          \<lparr>calls = [], store = readOnlyDisk\<rparr>) =
      \<lparr>Success = True, Message = ''Device paired successfully'',
        Data = DataToken ''test_token''\<rparr> \<and>
   m_token (fst (handleAction_pair mockClient (FileConfigManager stubJSON)
      \<lparr>m_ip = ''192.168.1.100'', m_token = [], m_deviceReady = False,
        m_message = (NormalStyle, [])\<rparr>
      \<lparr>calls = [], store = readOnlyDisk\<rparr>)) = ''test_token''"
proof -
  have a: "''192.168.1.100'' \<noteq> ([]::string)" by simp
  have p: "PairFunc mockClient (calls \<lparr>calls = [], store = readOnlyDisk\<rparr>) ''192.168.1.100'' =
             Inr ''test_token''"
    by (simp add: mockClient_def)
  have s: "fst (SaveFunc (FileConfigManager stubJSON) ''192.168.1.100'' ''test_token''
                  readOnlyDisk) \<noteq> None"
    by (simp add: FileConfigManager_def Save_def stubJSON_def WriteFile_def readOnlyDisk_def)
  show ?thesis
    using PairWithDevice_survives_save_failure [OF a p, of "FileConfigManager stubJSON"
        "\<lparr>m_ip = ''192.168.1.100'', m_token = [], m_deviceReady = False,
          m_message = (NormalStyle, [])\<rparr>"] p s
    by simp
qed

text \<open>
  C6. \<open>PairWithDevice\<close> with an empty address, and \<open>SetDevicePower\<close>, \<open>SetBrightness\<close> and
  \<open>GetDeviceInfo\<close> with an empty address or an empty credential, return a failure with the
  message of the source and leave the world as it was: the log of device-API calls has
  not grown.
\<close>

theorem preconditions_checked_before_api:
  "PairWithDevice client configManager [] w =
     (\<lparr>Success = False, Message = ''No device IP provided. Please scan first.'',
       Data = DataNil\<rparr>, w) \<and>
   (ip = [] \<or> token = [] \<longrightarrow>
      SetDevicePower client ip token on w =
        (\<lparr>Success = False, Message = ''Device not paired. Please scan and pair first.'',
          Data = DataNil\<rparr>, w) \<and>
      SetBrightness client ip token b w =
        (\<lparr>Success = False, Message = ''Device not paired. Please scan and pair first.'',
          Data = DataNil\<rparr>, w) \<and>
      GetDeviceInfo client ip token w =
        (\<lparr>Success = False, Message = ''Device not paired. Please scan and pair first.'',
          Data = DataNil\<rparr>, w))"
  by (simp add: PairWithDevice_def SetDevicePower_def SetBrightness_def GetDeviceInfo_def)

theorem preconditions_checked_before_api_witness:
  "([] = ([]::string) \<or> ''T1'' = []) \<and>
   SetDevicePower mockClient [] ''T1'' True \<lparr>calls = [], store = emptyDisk\<rparr> =
        (\<lparr>Success = False, Message = ''Device not paired. Please scan and pair first.'',
          Data = DataNil\<rparr>, \<lparr>calls = [], store = emptyDisk\<rparr>) \<and>
   SetBrightness mockClient [] ''T1'' 50 \<lparr>calls = [], store = emptyDisk\<rparr> =
        (\<lparr>Success = False, Message = ''Device not paired. Please scan and pair first.'',
          Data = DataNil\<rparr>, \<lparr>calls = [], store = emptyDisk\<rparr>) \<and>
   GetDeviceInfo mockClient [] ''T1'' \<lparr>calls = [], store = emptyDisk\<rparr> =
        (\<lparr>Success = False, Message = ''Device not paired. Please scan and pair first.'',
          Data = DataNil\<rparr>, \<lparr>calls = [], store = emptyDisk\<rparr>)"
  using preconditions_checked_before_api
    [of mockClient "FileConfigManager stubJSON" "\<lparr>calls = [], store = emptyDisk\<rparr>"
        "[]" "''T1''" True 50]
  by simp

section \<open>The store\<close>



text \<open>
  C9. \<open>LoadConfiguration\<close> over the file-based store: without the file, a failure; with a
  file that cannot be read or decoded, or whose address or credential is empty, a failure
  whose message ends with the cause; otherwise success with the loaded config as data.
  The world is unchanged in every case.
\<close>

theorem LoadConfiguration_cases:
  "(config_file (store w) = NotExist \<longrightarrow>
      LoadConfiguration (FileConfigManager js) w =
        (\<lparr>Success = False, Message = ''No saved configuration found'',
          Data = (DataNil :: 'i data)\<rparr>, w)) \<and>
   (config_file (store w) = Unreadable err \<longrightarrow>
      LoadConfiguration (FileConfigManager js) w =
        (\<lparr>Success = False,
          Message = ''Failed to load configuration: failed to read config file: '' @ err,
          Data = DataNil\<rparr>, w)) \<and>
   (config_file (store w) = Contents bytes \<and> Unmarshal js bytes = Inl err \<longrightarrow>
      LoadConfiguration (FileConfigManager js) w =
        (\<lparr>Success = False,
          Message = ''Failed to load configuration: failed to unmarshal config: '' @ err,
          Data = DataNil\<rparr>, w)) \<and>
   (config_file (store w) = Contents bytes \<and> Unmarshal js bytes = Inr cfg \<and>
    (IP cfg = [] \<or> Token cfg = []) \<longrightarrow>
      LoadConfiguration (FileConfigManager js) w =
        (\<lparr>Success = False,
          Message = ''Failed to load configuration: invalid configuration: missing IP or token'',
          Data = DataNil\<rparr>, w)) \<and>
   (config_file (store w) = Contents bytes \<and> Unmarshal js bytes = Inr cfg \<and>
    IP cfg \<noteq> [] \<and> Token cfg \<noteq> [] \<longrightarrow>
      LoadConfiguration (FileConfigManager js) w =
        (\<lparr>Success = True, Message = ''Configuration loaded successfully'',
          Data = DataConfig cfg\<rparr>, w))"
  by (simp add: LoadConfiguration_def FileConfigManager_def Load_def Exists_def ReadFile_def)

theorem LoadConfiguration_cases_witness:
  "config_file emptyDisk = NotExist \<and>
   LoadConfiguration (FileConfigManager stubJSON) \<lparr>calls = [], store = emptyDisk\<rparr> =
     (\<lparr>Success = False, Message = ''No saved configuration found'',
       Data = (DataNil :: unit data)\<rparr>, \<lparr>calls = [], store = emptyDisk\<rparr>) \<and>
   LoadConfiguration (FileConfigManager stubJSON)
      \<lparr>calls = [], store = emptyDisk\<lparr>config_file := Unreadable ''permission denied''\<rparr>\<rparr> =
     (\<lparr>Success = False,
       Message = ''Failed to load configuration: failed to read config file: permission denied'',
       Data = (DataNil :: unit data)\<rparr>,
      \<lparr>calls = [], store = emptyDisk\<lparr>config_file := Unreadable ''permission denied''\<rparr>\<rparr>) \<and>
   Unmarshal stubJSON ''{'' = Inl ''invalid character'' \<and>
   LoadConfiguration (FileConfigManager stubJSON)
      \<lparr>calls = [], store = emptyDisk\<lparr>config_file := Contents ''{''\<rparr>\<rparr> =
     (\<lparr>Success = False,
       Message = ''Failed to load configuration: failed to unmarshal config: invalid character'',
       Data = (DataNil :: unit data)\<rparr>,
      \<lparr>calls = [], store = emptyDisk\<lparr>config_file := Contents ''{''\<rparr>\<rparr>) \<and>
   Unmarshal stubJSON ''{\"ip\": \"192.168.1.100\"}'' = Inr \<lparr>IP = ''192.168.1.100'', Token = []\<rparr> \<and>
   LoadConfiguration (FileConfigManager stubJSON)
      \<lparr>calls = [], store = emptyDisk\<lparr>config_file := Contents ''{\"ip\": \"192.168.1.100\"}''\<rparr>\<rparr> =
     (\<lparr>Success = False,
       Message = ''Failed to load configuration: invalid configuration: missing IP or token'',
       Data = (DataNil :: unit data)\<rparr>,
      \<lparr>calls = [], store = emptyDisk\<lparr>config_file := Contents ''{\"ip\": \"192.168.1.100\"}''\<rparr>\<rparr>) \<and>
   Unmarshal stubJSON ''{\"ip\": \"192.168.1.100\", \"token\": \"test-token\"}'' =
     Inr \<lparr>IP = ''192.168.1.100'', Token = ''test-token''\<rparr> \<and>
   LoadConfiguration (FileConfigManager stubJSON)
      \<lparr>calls = [], store = emptyDisk\<lparr>config_file :=
         Contents ''{\"ip\": \"192.168.1.100\", \"token\": \"test-token\"}''\<rparr>\<rparr> =
     (\<lparr>Success = True, Message = ''Configuration loaded successfully'',
       Data = (DataConfig \<lparr>IP = ''192.168.1.100'', Token = ''test-token''\<rparr> :: unit data)\<rparr>,
      \<lparr>calls = [], store = emptyDisk\<lparr>config_file :=
         Contents ''{\"ip\": \"192.168.1.100\", \"token\": \"test-token\"}''\<rparr>\<rparr>)"
proof -
  let ?w = "\<lambda>f. \<lparr>calls = [], store = emptyDisk\<lparr>config_file := f\<rparr>\<rparr>"
  let ?short = "''{\"ip\": \"192.168.1.100\"}''"
  let ?full = "''{\"ip\": \"192.168.1.100\", \"token\": \"test-token\"}''"
  have e: "config_file emptyDisk = NotExist" by (simp add: emptyDisk_def)
  have u1: "Unmarshal stubJSON ''{'' = Inl ''invalid character''"
    by (simp add: stubJSON_def)
  have u2: "Unmarshal stubJSON ?short = Inr \<lparr>IP = ''192.168.1.100'', Token = []\<rparr>"
    by (simp add: stubJSON_def)
  have u3: "Unmarshal stubJSON ?full = Inr \<lparr>IP = ''192.168.1.100'', Token = ''test-token''\<rparr>"
    by (simp add: stubJSON_def)
  show ?thesis
    using
      LoadConfiguration_cases [where ?'i = unit and w = "\<lparr>calls = [], store = emptyDisk\<rparr>"
        and js = stubJSON]
      LoadConfiguration_cases [where ?'i = unit and w = "?w (Unreadable ''permission denied'')"
        and js = stubJSON and err = "''permission denied''"]
      LoadConfiguration_cases [where ?'i = unit and w = "?w (Contents ''{'')"
        and js = stubJSON and err = "''invalid character''" and bytes = "''{''"]
      LoadConfiguration_cases [where ?'i = unit and w = "?w (Contents ?short)"
        and js = stubJSON and bytes = ?short and cfg = "\<lparr>IP = ''192.168.1.100'', Token = []\<rparr>"]
      LoadConfiguration_cases [where ?'i = unit and w = "?w (Contents ?full)"
        and js = stubJSON and bytes = ?full
        and cfg = "\<lparr>IP = ''192.168.1.100'', Token = ''test-token''\<rparr>"]
      e u1 u2 u3
    by simp
qed

text \<open>
  C10. \<open>Save\<close> with an empty \<open>ip\<close> or an empty \<open>token\<close> returns an error and the disk as it
  was.
\<close>

theorem Save_rejects_empty:
  "ip = [] \<or> token = [] \<Longrightarrow>
   Save js ip token disk = (Some ''ip and token cannot be empty'', disk)"
  by (simp add: Save_def)

theorem Save_rejects_empty_witness:
  "(''192.168.1.100'' = [] \<or> [] = ([]::string)) \<and>
   Save stubJSON ''192.168.1.100'' [] emptyDisk =
     (Some ''ip and token cannot be empty'', emptyDisk)"
  using Save_rejects_empty [of "''192.168.1.100''" "[]" stubJSON emptyDisk] by simp

section \<open>The scan\<close>

subsection \<open>Decimal formatting is injective\<close>

lemma decimal_nonempty: "decimal n \<noteq> []"
  by (subst decimal.simps) simp

lemma digit_inj: "a < 10 \<Longrightarrow> b < 10 \<Longrightarrow> digit a = digit b \<Longrightarrow> a = b"
proof -
  assume a: "a < 10" and b: "b < 10" and e: "digit a = digit b"
  have d: "distinct ''0123456789''" by simp
  have la: "a < length ''0123456789''" using a by simp
  have lb: "b < length ''0123456789''" using b by simp
  from nth_eq_iff_index_eq [OF d la lb] e show "a = b" by (simp add: digit_def)
qed

lemma decimal_inj: "decimal n = decimal m \<Longrightarrow> n = m"
proof (induction n arbitrary: m rule: decimal.induct)
  case (1 n)
  show ?case
  proof (cases "n < 10")
    case True
    then have dn: "decimal n = [digit n]" by (subst decimal.simps) simp
    show ?thesis
    proof (cases "m < 10")
      case True
      then have "decimal m = [digit m]" by (subst decimal.simps) simp
      with dn "1.prems" have "digit n = digit m" by simp
      with \<open>n < 10\<close> True show ?thesis by (rule digit_inj)
    next
      case False
      then have "decimal m = decimal (m div 10) @ [digit (m mod 10)]" by (subst decimal.simps) simp
      with dn "1.prems" have "decimal (m div 10) = []" by simp
      with decimal_nonempty show ?thesis by blast
    qed
  next
    case False
    then have dn: "decimal n = decimal (n div 10) @ [digit (n mod 10)]" by (subst decimal.simps) simp
    show ?thesis
    proof (cases "m < 10")
      case True
      then have "decimal m = [digit m]" by (subst decimal.simps) simp
      with dn "1.prems" have "decimal (n div 10) = []" by simp
      with decimal_nonempty show ?thesis by blast
    next
      case m: False
      then have "decimal m = decimal (m div 10) @ [digit (m mod 10)]" by (subst decimal.simps) simp
      with dn "1.prems" have e: "decimal (n div 10) = decimal (m div 10)"
        and d: "digit (n mod 10) = digit (m mod 10)" by simp_all
      from "1.IH" [OF False e] have q: "n div 10 = m div 10" .
      have "n mod 10 = m mod 10" using d by (intro digit_inj) simp_all
      with q show ?thesis by (metis div_mult_mod_eq)
    qed
  qed
qed

lemma formatInt_of_nat: "formatInt (int n) = decimal n"
  by (simp add: formatInt_def)

lemma distinct_sent: "distinct (sent subnet n)"
  unfolding sent_def
  by (auto simp: distinct_map formatInt_of_nat intro!: inj_onI dest: decimal_inj)

lemma sent_nonempty: "ip \<in> set (sent subnet n) \<Longrightarrow> ip \<noteq> []"
  by (auto simp: sent_def formatInt_of_nat decimal_nonempty)

lemma candidates_sent: "candidates subnet = sent subnet 255"
  by (simp add: candidates_def sent_def)

lemma filter_report:
  "\<forall>p \<in> set ds. fst p \<noteq> [] \<Longrightarrow> filter (\<lambda>r. r \<noteq> []) (map report ds) = map fst (filter snd ds)"
  by (induction ds) (auto simp: report_def)

subsection \<open>The accounting is an invariant\<close>

lemma sum_list_update_add:
  fixes f :: "'a \<Rightarrow> 'b multiset"
  shows "k < length ws \<Longrightarrow>
    sum_list (map f (ws[k := w])) + f (ws ! k) = sum_list (map f ws) + f w"
proof (induction ws arbitrary: k)
  case Nil
  then show ?case by simp
next
  case (Cons a ws)
  show ?case
  proof (cases k)
    case 0
    then show ?thesis by simp
  next
    case (Suc j)
    with Cons.prems have "j < length ws" by simp
    from Cons.IH [OF this] Suc show ?thesis by (simp add: ac_simps)
  qed
qed

lemma holding_update:
  assumes "k < length ws"
  shows "sum_list (map holding (ws[k := w])) + holding (ws ! k) = sum_list (map holding ws) + holding w"
  using assms by (rule sum_list_update_add)

lemma reporting_update:
  assumes "k < length ws"
  shows "sum_list (map reporting (ws[k := w])) + reporting (ws ! k) = sum_list (map reporting ws) + reporting w"
  using assms by (rule sum_list_update_add)

lemma set_update_cases: "x \<in> set (ws[k := w]) \<Longrightarrow> x = w \<or> x \<in> set ws"
  by (meson in_set_conv_nth insert_iff set_update_subset_insert subsetD)

lemma sent_Suc: "1 \<le> n \<Longrightarrow> sent subnet (Suc n) = sent subnet n @ [subnet @ formatInt (int n)]"
  by (simp add: sent_def)

lemma sent_1: "sent subnet (Suc 0) = []"
  by (simp add: sent_def)

lemma sum_list_replicate_empty: "sum_list (replicate n ({#} :: 'a multiset)) = {#}"
  by (induction n) auto

lemma start_inv: "scan_inv subnet start"
  by (simp add: scan_inv_def start_def maxWorkers_def sent_1 sum_list_replicate_empty)

lemma all_exited_sum_holding: "\<forall>w \<in> set ws. w = Exited \<Longrightarrow> sum_list (map holding ws) = {#}"
  by (induction ws) auto

lemma all_exited_sum_reporting: "\<forall>w \<in> set ws. w = Exited \<Longrightarrow> sum_list (map reporting ws) = {#}"
  by (induction ws) auto

lemma step_ctx_err: "step subnet a s = Some s' \<Longrightarrow> ctx_err s' = None \<Longrightarrow> ctx_err s = None"
  by (cases a) (auto split: if_splits list.splits wstate.splits option.splits)

lemma inv_SenderSend:
  assumes "scan_inv subnet s" "step subnet SenderSend s = Some s'"
  shows "scan_inv subnet s'"
  using assms
  by (auto simp: scan_inv_def sent_Suc split: if_splits)

lemma inv_SenderFinish:
  assumes "scan_inv subnet s" "step subnet SenderFinish s = Some s'"
  shows "scan_inv subnet s'"
  using assms
  by (auto simp: scan_inv_def split: if_splits)

lemma inv_WorkerRecv:
  assumes "scan_inv subnet s" "step subnet (WorkerRecv k) s = Some s'"
  shows "scan_inv subnet s'"
proof -
  from assms(2) obtain ip rest where k: "k < length (workers s)" "workers s ! k = Selecting"
    and j: "jobs s = ip # rest"
    and s': "s' = s\<lparr>jobs := rest, workers := (workers s)[k := Probing ip]\<rparr>"
    by (auto split: if_splits list.splits)
  have h: "sum_list (map holding ((workers s)[k := Probing ip])) = sum_list (map holding (workers s)) + {#ip#}"
    using holding_update [OF k(1), of "Probing ip"] k(2) by simp
  have r: "sum_list (map reporting ((workers s)[k := Probing ip])) = sum_list (map reporting (workers s))"
    using reporting_update [OF k(1), of "Probing ip"] k(2) by simp
  have e: "Exited \<in> set ((workers s)[k := Probing ip]) \<Longrightarrow> Exited \<in> set (workers s)"
    using set_update_cases by fastforce
  have ne: "Exited \<notin> set (workers s)" using assms(1) j by (auto simp: scan_inv_def)
  have sel: "Selecting \<in> set (workers s)" using k by (metis nth_mem)
  have nc: "\<not> results_closed s" using assms(1) sel by (auto simp: scan_inv_def)
  show ?thesis
    using assms(1) j ne e nc unfolding s' scan_inv_def
    by (auto simp: h r)
qed

lemma inv_WorkerJobsClosed:
  assumes "scan_inv subnet s" "step subnet (WorkerJobsClosed k) s = Some s'"
  shows "scan_inv subnet s'"
proof -
  from assms(2) have k: "k < length (workers s)" "workers s ! k = Selecting"
    and j: "jobs s = []" "jobs_closed s"
    and s': "s' = s\<lparr>workers := (workers s)[k := Exited]\<rparr>"
    by (auto split: if_splits)
  have h: "sum_list (map holding ((workers s)[k := Exited])) = sum_list (map holding (workers s))"
    using holding_update [OF k(1), of Exited] k(2) by simp
  have r: "sum_list (map reporting ((workers s)[k := Exited])) = sum_list (map reporting (workers s))"
    using reporting_update [OF k(1), of Exited] k(2) by simp
  have sel: "Selecting \<in> set (workers s)" using k by (metis nth_mem)
  have nc: "\<not> results_closed s" using assms(1) sel by (auto simp: scan_inv_def)
  show ?thesis
    using assms(1) j nc unfolding s' scan_inv_def
    by (auto simp: h r)
qed

lemma inv_WorkerDial:
  assumes "scan_inv subnet s" "step subnet (WorkerDial k ok) s = Some s'"
  shows "scan_inv subnet s'"
proof -
  from assms(2) obtain ip where k: "k < length (workers s)" "workers s ! k = Probing ip"
    and s': "s' = s\<lparr>workers := (workers s)[k := Reporting (if ok then ip else [])],
                     dialed := (ip, ok) # dialed s\<rparr>"
    by (auto split: if_splits wstate.splits)
  let ?w = "Reporting (if ok then ip else [])"
  have h: "sum_list (map holding ((workers s)[k := ?w])) + {#ip#} = sum_list (map holding (workers s))"
    using holding_update [OF k(1), of ?w] k(2) by simp
  have r: "sum_list (map reporting ((workers s)[k := ?w])) =
           sum_list (map reporting (workers s)) + (if ok \<and> ip \<noteq> [] then {#ip#} else {#})"
    using reporting_update [OF k(1), of ?w] k(2) by simp
  have e: "Exited \<in> set ((workers s)[k := ?w]) \<Longrightarrow> Exited \<in> set (workers s)"
    using set_update_cases by fastforce
  have p: "Probing ip \<in> set (workers s)" using k by (metis nth_mem)
  have nc: "\<not> results_closed s" using assms(1) p by (auto simp: scan_inv_def)
  have b: "mset (sent subnet (next_i s)) =
       mset (jobs s) + sum_list (map holding ((workers s)[k := ?w])) + mset (map fst ((ip, ok) # dialed s))"
    using assms(1) h [symmetric] by (simp add: scan_inv_def)
  show ?thesis
    using assms(1) nc e b unfolding s' scan_inv_def
    by (auto simp: r report_def)
qed

lemma inv_WorkerReport:
  assumes "scan_inv subnet s" "step subnet (WorkerReport k) s = Some s'"
  shows "scan_inv subnet s'"
proof -
  from assms(2) obtain r where k: "k < length (workers s)" "workers s ! k = Reporting r"
    and nc: "\<not> results_closed s"
    and s': "s' = s\<lparr>results := results s @ [r], workers := (workers s)[k := Selecting]\<rparr>"
    by (auto split: if_splits wstate.splits)
  have h: "sum_list (map holding ((workers s)[k := Selecting])) = sum_list (map holding (workers s))"
    using holding_update [OF k(1), of Selecting] k(2) by simp
  have rp: "sum_list (map reporting ((workers s)[k := Selecting])) + (if r = [] then {#} else {#r#}) =
           sum_list (map reporting (workers s))"
    using reporting_update [OF k(1), of Selecting] k(2) by simp
  have e: "Exited \<in> set ((workers s)[k := Selecting]) \<Longrightarrow> Exited \<in> set (workers s)"
    using set_update_cases by fastforce
  have c: "filter_mset (\<lambda>r. r \<noteq> []) (mset (map report (dialed s))) =
       sum_list (map reporting ((workers s)[k := Selecting]))
         + filter_mset (\<lambda>r. r \<noteq> []) (mset (results s @ [r])) + mset (devices s)"
    using assms(1) rp [symmetric] by (simp add: scan_inv_def)
  have nr: "returned s = None" using assms(1) nc by (cases "returned s") (auto simp: scan_inv_def)
  show ?thesis
    using assms(1) nc e c nr unfolding s' scan_inv_def
    by (auto simp: h)
qed

lemma inv_WaiterClose:
  assumes "scan_inv subnet s" "step subnet WaiterClose s = Some s'"
  shows "scan_inv subnet s'"
  using assms
  by (auto simp: scan_inv_def split: if_splits)

lemma inv_CollectRecv:
  assumes "scan_inv subnet s" "step subnet CollectRecv s = Some s'"
  shows "scan_inv subnet s'"
  using assms
  by (auto simp: scan_inv_def split: if_splits list.splits)

lemma inv_CollectClosed:
  assumes "scan_inv subnet s" "step subnet CollectClosed s = Some s'"
  shows "scan_inv subnet s'"
  using assms
  by (auto simp: scan_inv_def split: if_splits)

lemma inv_step:
  assumes "scan_inv subnet s" "step subnet a s = Some s'" "ctx_err s' = None"
  shows "scan_inv subnet s'"
proof (cases a)
  case (CtxDone e)
  with assms(2,3) show ?thesis by (auto split: if_splits)
next
  case SenderSend
  with assms show ?thesis using inv_SenderSend by blast
next
  case SenderCancel
  with assms(2,3) show ?thesis by (auto split: if_splits)
next
  case SenderFinish
  with assms show ?thesis using inv_SenderFinish by blast
next
  case (WorkerRecv k)
  with assms show ?thesis using inv_WorkerRecv by blast
next
  case (WorkerJobsClosed k)
  with assms show ?thesis using inv_WorkerJobsClosed by blast
next
  case (WorkerCancel k)
  with assms(2,3) show ?thesis by (auto split: if_splits)
next
  case (WorkerDial k ok)
  with assms show ?thesis using inv_WorkerDial by blast
next
  case (WorkerReport k)
  with assms show ?thesis using inv_WorkerReport by blast
next
  case WaiterClose
  with assms show ?thesis using inv_WaiterClose by blast
next
  case CollectRecv
  with assms show ?thesis using inv_CollectRecv by blast
next
  case CollectClosed
  with assms show ?thesis using inv_CollectClosed by blast
next
  case CollectCancel
  with assms(2,3) show ?thesis by (auto split: if_splits option.splits)
qed

lemma run_ctx_err: "run subnet sched s = Some s' \<Longrightarrow> ctx_err s' = None \<Longrightarrow> ctx_err s = None"
proof (induction sched arbitrary: s)
  case Nil
  then show ?case by simp
next
  case (Cons a sched)
  from Cons.prems(1) obtain s1 where a: "step subnet a s = Some s1" and r: "run subnet sched s1 = Some s'"
    by (auto split: option.splits)
  from Cons.IH [OF r Cons.prems(2)] have "ctx_err s1 = None" .
  with a show ?case by (rule step_ctx_err)
qed

lemma inv_run:
  "scan_inv subnet s \<Longrightarrow> run subnet sched s = Some s' \<Longrightarrow> ctx_err s' = None \<Longrightarrow> scan_inv subnet s'"
proof (induction sched arbitrary: s)
  case Nil
  then show ?case by simp
next
  case (Cons a sched)
  from Cons.prems(2) obtain s1 where a: "step subnet a s = Some s1" and r: "run subnet sched s1 = Some s'"
    by (auto split: option.splits)
  from run_ctx_err [OF r Cons.prems(3)] have "ctx_err s1 = None" .
  with Cons.prems(1) a have "scan_inv subnet s1" by (rule inv_step)
  from Cons.IH [OF this r Cons.prems(3)] show ?case .
qed

subsection \<open>A scan that runs to its end\<close>

lemma run_append:
  "run subnet (xs @ ys) s = (case run subnet xs s of None \<Rightarrow> None | Some s' \<Rightarrow> run subnet ys s')"
  by (induction xs arbitrary: s) (auto split: option.splits)

lemma replicate_update_same: "(replicate n x)[k := x] = replicate n x"
  by (induction n arbitrary: k) (auto split: nat.split)

lemma round_run:
  assumes "n \<le> 254"
  shows "run subnet (scanRound 0 ok) (betweenRounds n ds devs) =
         Some (betweenRounds (Suc n) ((subnet @ formatInt (int n), ok) # ds)
                 (if ok then devs @ [subnet @ formatInt (int n)] else devs))"
  using assms
  by (simp add: scanRound_def betweenRounds_def start_def maxWorkers_def
        replicate_update_same formatInt_of_nat decimal_nonempty)

lemma rounds_run:
  "n \<le> 254 \<Longrightarrow>
   run subnet (concat (map (\<lambda>i. scanRound 0 (up i)) [1..<Suc n])) start =
     Some (betweenRounds (Suc n)
            (rev (map (\<lambda>i. (subnet @ formatInt (int i), up i)) [1..<Suc n]))
            (map (\<lambda>i. subnet @ formatInt (int i)) (filter up [1..<Suc n])))"
proof (induction n)
  case 0
  show ?case by (simp add: betweenRounds_def start_def)
next
  case (Suc n)
  then have "n \<le> 254" and sn: "Suc n \<le> 254" by simp_all
  from Suc.IH [OF this(1)] round_run [OF sn, of subnet "up (Suc n)"]
  show ?case by (simp add: run_append)
qed

lemma workers_exit:
  "workers s = replicate k Exited @ replicate m Selecting \<Longrightarrow> jobs s = [] \<Longrightarrow> jobs_closed s \<Longrightarrow>
   run subnet (map WorkerJobsClosed [k..<k + m]) s = Some (s\<lparr>workers := replicate (k + m) Exited\<rparr>)"
proof (induction m arbitrary: k s)
  case 0
  then show ?case by simp
next
  case (Suc m)
  let ?s = "s\<lparr>workers := replicate (Suc k) Exited @ replicate m Selecting\<rparr>"
  have len: "length (replicate k Exited :: wstate list) = k" by simp
  have st: "step subnet (WorkerJobsClosed k) s = Some ?s"
    using Suc.prems nth_append_length [of "replicate k Exited" Selecting "replicate m Selecting"]
      list_update_length [of "replicate k Exited" Selecting "replicate m Selecting" Exited]
    by (simp add: replicate_app_Cons_same)
  have ih: "run subnet (map WorkerJobsClosed [Suc k..<Suc k + m]) ?s =
        Some (?s\<lparr>workers := replicate (Suc k + m) Exited\<rparr>)"
    using Suc.prems by (intro Suc.IH) simp_all
  have u: "[k..<k + Suc m] = k # [Suc k..<Suc k + m]"
    by (simp add: upt_conv_Cons)
  have "run subnet (map WorkerJobsClosed [k..<k + Suc m]) s =
        run subnet (map WorkerJobsClosed [Suc k..<Suc k + m]) ?s"
    unfolding u using st by simp
  also have "\<dots> = Some (?s\<lparr>workers := replicate (Suc k + m) Exited\<rparr>)" by (rule ih)
  also have "?s\<lparr>workers := replicate (Suc k + m) Exited\<rparr> =
             s\<lparr>workers := replicate (k + Suc m) Exited\<rparr>" by simp
  finally show ?case .
qed

lemma fullSchedule_run:
  "run subnet (fullSchedule up) start =
     Some \<lparr>ctx_err = None, next_i = 255, jobs = [], jobs_closed = True,
           workers = replicate 50 Exited, results = [], results_closed = True,
           devices = map (\<lambda>i. subnet @ formatInt (int i)) (filter up [1..<255]),
           returned = Some (Inr (map (\<lambda>i. subnet @ formatInt (int i)) (filter up [1..<255]))),
           dialed = rev (map (\<lambda>i. (subnet @ formatInt (int i), up i)) [1..<255])\<rparr>"
proof -
  let ?b = "betweenRounds 255
            (rev (map (\<lambda>i. (subnet @ formatInt (int i), up i)) [1..<255]))
            (map (\<lambda>i. subnet @ formatInt (int i)) (filter up [1..<255]))"
  have r1: "run subnet (concat (map (\<lambda>i. scanRound 0 (up i)) [1..<255])) start = Some ?b"
    using rounds_run [of 254 subnet up] by simp
  have r2: "step subnet SenderFinish ?b = Some (?b\<lparr>jobs_closed := True\<rparr>)"
    by (simp add: betweenRounds_def start_def)
  have r3: "run subnet (map WorkerJobsClosed [0..<0 + 50]) (?b\<lparr>jobs_closed := True\<rparr>) =
            Some (?b\<lparr>jobs_closed := True, workers := replicate (0 + 50) Exited\<rparr>)"
    using workers_exit [of "?b\<lparr>jobs_closed := True\<rparr>" 0 50 subnet]
    by (simp add: betweenRounds_def start_def maxWorkers_def)
  show ?thesis
    using r1 r2 r3
    by (simp add: fullSchedule_def run_append betweenRounds_def start_def)
qed

lemma lan_devices:
  "map (\<lambda>i. ''192.168.1.'' @ formatInt (int i)) (filter (\<lambda>i. i = 5 \<or> i = 100) [1..<255]) =
     [''192.168.1.5'', ''192.168.1.100'']"
  by code_simp

text \<open>
  C4. In an execution from the start in which the context is not done when \<open>Scan\<close> has
  returned, \<open>Scan\<close> returns the list \<open>devices\<close>; the addresses dialed are the 254 candidates
  of the subnet, each dialed once; the list returned holds exactly the addresses whose
  dial succeeded, without duplicates, and has at most 254 elements.
\<close>

theorem Scan_normal_completion:
  assumes "run subnet sched start = Some s" and "ctx_err s = None" and "returned s = Some r"
  shows "r = Inr (devices s) \<and>
         mset (map fst (dialed s)) = mset (candidates subnet) \<and>
         distinct (map fst (dialed s)) \<and> length (dialed s) = 254 \<and>
         set (devices s) = {ip. (ip, True) \<in> set (dialed s)} \<and>
         distinct (devices s) \<and> length (devices s) \<le> 254"
proof -
  have inv: "scan_inv subnet s"
    using start_inv assms(1,2) by (rule inv_run)
  from inv assms(3) have r: "r = Inr (devices s)" and rc: "results_closed s" and re: "results s = []"
    by (auto simp: scan_inv_def)
  from inv rc have ex: "\<forall>w \<in> set (workers s). w = Exited" by (auto simp: scan_inv_def)
  from inv have "workers s \<noteq> []" by (simp add: scan_inv_def)
  with ex have "Exited \<in> set (workers s)" by (cases "workers s") auto
  with inv have jc: "jobs_closed s" and je: "jobs s = []" by (auto simp: scan_inv_def)
  with inv have n: "next_i s = 255" by (auto simp: scan_inv_def)
  from inv have "mset (sent subnet (next_i s)) =
       mset (jobs s) + sum_list (map holding (workers s)) + mset (map fst (dialed s))"
    by (simp add: scan_inv_def)
  then have b: "mset (map fst (dialed s)) = mset (candidates subnet)"
    by (simp add: n je all_exited_sum_holding [OF ex] candidates_sent)
  have dc: "distinct (candidates subnet)" by (simp add: candidates_sent distinct_sent)
  have dd: "distinct (map fst (dialed s))"
    using mset_eq_imp_distinct_iff [OF b] dc by simp
  have len: "length (dialed s) = 254"
    using mset_eq_length [OF b] by (simp add: candidates_def)
  have "set (map fst (dialed s)) = set (candidates subnet)" using b by (rule mset_eq_setD)
  then have ne: "\<forall>p \<in> set (dialed s). fst p \<noteq> []"
    using sent_nonempty [of _ subnet 255] by (auto simp: candidates_sent)
  from inv have "filter_mset (\<lambda>r. r \<noteq> []) (mset (map report (dialed s))) =
       sum_list (map reporting (workers s)) + filter_mset (\<lambda>r. r \<noteq> []) (mset (results s))
         + mset (devices s)"
    by (simp add: scan_inv_def)
  then have "mset (filter (\<lambda>r. r \<noteq> []) (map report (dialed s))) = mset (devices s)"
    by (simp add: re all_exited_sum_reporting [OF ex])
  then have c: "mset (devices s) = mset (map fst (filter snd (dialed s)))"
    by (simp only: filter_report [OF ne])
  have dfs: "distinct (map fst (filter snd (dialed s)))"
    using dd by (rule distinct_map_filter)
  have d1: "distinct (devices s)"
    using mset_eq_imp_distinct_iff [OF c] dfs by simp
  have "set (devices s) = set (map fst (filter snd (dialed s)))" using c by (rule mset_eq_setD)
  then have d2: "set (devices s) = {ip. (ip, True) \<in> set (dialed s)}" by force
  have "length (devices s) = length (map fst (filter snd (dialed s)))" using c by (rule mset_eq_length)
  also have "\<dots> \<le> length (dialed s)" by simp
  finally have d3: "length (devices s) \<le> 254" using len by simp
  from r b dd len d2 d1 d3 show ?thesis by simp
qed

theorem Scan_normal_completion_witness:
  "\<exists>s. run ''192.168.1.'' (fullSchedule (\<lambda>i. i = 5 \<or> i = 100)) start = Some s \<and>
       ctx_err s = None \<and>
       returned s = Some (Inr [''192.168.1.5'', ''192.168.1.100'']) \<and>
       mset (map fst (dialed s)) = mset (candidates ''192.168.1.'') \<and>
       distinct (map fst (dialed s)) \<and> length (dialed s) = 254 \<and>
       set [''192.168.1.5'', ''192.168.1.100''] = {ip. (ip, True) \<in> set (dialed s)} \<and>
       length (devices s) \<le> 254"
proof -
  define s where "s =
          \<lparr>ctx_err = None, next_i = 255, jobs = [], jobs_closed = True,
           workers = replicate 50 Exited, results = [], results_closed = True,
           devices = [''192.168.1.5'', ''192.168.1.100''],
           returned = Some (Inr [''192.168.1.5'', ''192.168.1.100'']),
           dialed = rev (map (\<lambda>i. (''192.168.1.'' @ formatInt (int i), i = 5 \<or> i = 100))
                      [1..<255])\<rparr>"
  have run: "run ''192.168.1.'' (fullSchedule (\<lambda>i. i = 5 \<or> i = 100)) start = Some s"
    using fullSchedule_run [of "''192.168.1.''" "\<lambda>i. i = 5 \<or> i = 100"]
    unfolding lan_devices s_def .
  have c: "ctx_err s = None" by (simp add: s_def)
  have r: "returned s = Some (Inr [''192.168.1.5'', ''192.168.1.100''])" by (simp add: s_def)
  have d: "devices s = [''192.168.1.5'', ''192.168.1.100'']" by (simp add: s_def)
  from Scan_normal_completion [OF run c r]
  have "mset (map fst (dialed s)) = mset (candidates ''192.168.1.'') \<and>
       distinct (map fst (dialed s)) \<and> length (dialed s) = 254 \<and>
       set (devices s) = {ip. (ip, True) \<in> set (dialed s)} \<and>
       length (devices s) \<le> 254"
    by blast
  with run c r show ?thesis
    unfolding d by (intro exI [of _ s]) (simp add: d)
qed

text \<open>
  C3. The claim: when the deadline passes before all 254 reports are collected, \<open>Scan\<close>
  returns the context's error and never a list. In \<open>deadlineSchedule\<close> the deadline passes
  after one report; two hosts have been dialed when \<open>Scan\<close> returns, and it returns the list
  of the one address found, with no error.
\<close>

theorem Scan_returns_partial_list_after_deadline:
  "map_option (\<lambda>s. (ctx_err s, length (dialed s), returned s))
     (run ''192.168.1.'' deadlineSchedule start) =
   Some (Some ''context deadline exceeded'', 2, Some (Inr [''192.168.1.1'']))"
  by code_simp

end
